theory Spec2Isabelle
  imports Complex_Main "HOL-Library.Word"
begin

section \<open>JavaScript strings\<close>

text \<open>
  A JavaScript string is a sequence of UTF-16 code units. \<open>str\<close> writes a string
  literal of the source, whose characters are all below 256, as such a sequence.
\<close>

type_synonym code_unit = "16 word"

type_synonym jsstring = "code_unit list"

definition unit_of :: "char \<Rightarrow> code_unit" where
  "unit_of c = of_nat (of_char c)"

definition str :: "string \<Rightarrow> jsstring" where
  "str s = map unit_of s"

definition comma :: code_unit where
  "comma = unit_of CHR '',''"

definition isWhiteSpace :: "code_unit \<Rightarrow> bool" where
  \<comment> \<open>The code points \<^verbatim>\<open>trim\<close> removes: WhiteSpace (TAB, VT, FF, ZWNBSP and the space
      separators) and LineTerminator (LF, CR, LS, PS).\<close>
  "isWhiteSpace c =
     (c = 0x0009 \<or> c = 0x000B \<or> c = 0x000C \<or> c = 0xFEFF \<or>
      c = 0x0020 \<or> c = 0x00A0 \<or> c = 0x1680 \<or> (0x2000 \<le> c \<and> c \<le> 0x200A) \<or>
      c = 0x202F \<or> c = 0x205F \<or> c = 0x3000 \<or>
      c = 0x000A \<or> c = 0x000D \<or> c = 0x2028 \<or> c = 0x2029)"

definition trim :: "jsstring \<Rightarrow> jsstring" where
  \<comment> \<open>\<^verbatim>\<open>String.prototype.trim\<close>: leading and trailing white space removed.\<close>
  "trim s = rev (dropWhile isWhiteSpace (rev (dropWhile isWhiteSpace s)))"

fun split :: "code_unit \<Rightarrow> jsstring \<Rightarrow> jsstring list" where
  \<comment> \<open>\<^verbatim>\<open>s.split(sep)\<close> for a separator of one code unit; the empty string gives one
      empty segment.\<close>
  "split sep [] = [[]]"
| "split sep (c # cs) =
     (if c = sep then [] # split sep cs
      else (let r = split sep cs in (c # hd r) # tl r))"

fun join :: "jsstring \<Rightarrow> jsstring list \<Rightarrow> jsstring" where
  \<comment> \<open>\<^verbatim>\<open>xs.join(sep)\<close>\<close>
  "join sep [] = []"
| "join sep [x] = x"
| "join sep (x # y # ys) = x @ sep @ join sep (y # ys)"

fun startsWith :: "jsstring \<Rightarrow> jsstring \<Rightarrow> bool" where
  "startsWith s [] = True"
| "startsWith [] (q # qs) = False"
| "startsWith (c # cs) (q # qs) = (c = q \<and> startsWith cs qs)"

fun includes_str :: "jsstring \<Rightarrow> jsstring \<Rightarrow> bool" where
  \<comment> \<open>\<^verbatim>\<open>s.includes(q)\<close>: some position of \<open>s\<close> starts an occurrence of \<open>q\<close>.\<close>
  "includes_str [] q = startsWith [] q"
| "includes_str (c # cs) q = (startsWith (c # cs) q \<or> includes_str cs q)"

subsection \<open>toLowerCase\<close>











subsection \<open>Numerals and truthiness\<close>

fun digit_char :: "nat \<Rightarrow> code_unit" where
  "digit_char n = of_nat (48 + n)"

fun string_of_nat :: "nat \<Rightarrow> jsstring" where
  \<comment> \<open>the decimal numeral a template literal prints for a non-negative integer\<close>
  "string_of_nat n =
     (if n < 10 then [digit_char n] else string_of_nat (n div 10) @ [digit_char (n mod 10)])"

declare string_of_nat.simps [simp del]

definition truthy :: "jsstring \<Rightarrow> bool" where
  \<comment> \<open>a string used as a condition: only the empty string is falsy\<close>
  "truthy s = (s \<noteq> [])"

section \<open>JavaScript numbers\<close>

text \<open>
  The only numbers the code computes with are time values in milliseconds and their
  quotient by the length of an hour. They are modelled as exact reals together with NaN,
  which an invalid date yields and every operation propagates. Time values are integers,
  and for two of them less than \<open>2^53\<close> apart the double-precision quotient lies on the
  same side of every integer as the exact one, so \<^verbatim>\<open>Math.ceil\<close> returns the same
  integer in both.
\<close>

datatype jsnum = Num real | NaN

fun js_sub :: "jsnum \<Rightarrow> jsnum \<Rightarrow> jsnum" where
  "js_sub (Num a) (Num b) = Num (a - b)"
| "js_sub _ _ = NaN"

fun js_div :: "jsnum \<Rightarrow> real \<Rightarrow> jsnum" where
  \<comment> \<open>division by a non-zero constant\<close>
  "js_div (Num a) k = Num (a / k)"
| "js_div NaN k = NaN"

fun Math_ceil :: "jsnum \<Rightarrow> jsnum" where
  "Math_ceil (Num a) = Num (of_int \<lceil>a\<rceil>)"
| "Math_ceil NaN = NaN"

fun Math_max :: "jsnum \<Rightarrow> jsnum \<Rightarrow> jsnum" where
  \<comment> \<open>NaN if either argument is NaN\<close>
  "Math_max (Num a) (Num b) = Num (max a b)"
| "Math_max _ _ = NaN"

fun js_le :: "jsnum \<Rightarrow> jsnum \<Rightarrow> bool" where
  \<comment> \<open>the relational operator \<^verbatim>\<open><=\<close>: false as soon as an operand is NaN\<close>
  "js_le (Num a) (Num b) = (a \<le> b)"
| "js_le _ _ = False"

fun getTime :: "int option \<Rightarrow> jsnum" where
  \<comment> \<open>\<^verbatim>\<open>Date.prototype.getTime\<close>: the time value, NaN for an invalid date\<close>
  "getTime (Some t) = Num (of_int t)"
| "getTime None = NaN"

section \<open>Data model\<close>

text \<open>\<^verbatim>\<open>interface Listing\<close> of DonorDashboard.tsx: the fields every record of the API
  carries, then the optional ones the dashboard adds for display.\<close>

record ServerListing =
  listing_id :: int
  title :: jsstring
  organization :: jsstring
  location :: jsstring
  description :: jsstring
  quantity :: int
  dietaryRestrictions :: jsstring
  availabilityStatus :: jsstring
  expirationDate :: jsstring
  imageUrl :: "jsstring list"
  userId :: int

record Listing = ServerListing +
  tags :: "jsstring list option"
  status :: jsstring
  duration :: jsnum
  reservations :: int
  first_image :: "jsstring option"

section \<open>DonorDashboard.tsx\<close>

subsection \<open>The transformation of one record\<close>

definition parseTags :: "jsstring \<Rightarrow> jsstring list" where
  \<comment> \<open>lines 56-58\<close>
  "parseTags dr = (if truthy dr then map trim (split comma dr) else [])"

definition durationHours :: "jsnum \<Rightarrow> jsnum \<Rightarrow> jsnum" where
  \<comment> \<open>line 63, from the two \<^verbatim>\<open>getTime()\<close> values\<close>
  "durationHours expirationTime nowTime =
     Math_max (Num 0) (Math_ceil (js_div (js_sub expirationTime nowTime) (1000 * 60 * 60)))"

definition formatListing :: "(jsstring \<Rightarrow> int option) \<Rightarrow> int \<Rightarrow> ServerListing \<Rightarrow> Listing" where
  \<comment> \<open>The callback of \<^verbatim>\<open>result.data.map\<close>, lines 54-73. \<open>Date_parse\<close> is the platform's
      \<^verbatim>\<open>new Date(string)\<close> (\<open>None\<close> for an invalid date) and \<open>now\<close> the time value
      that \<^verbatim>\<open>new Date()\<close> on line 62 returned for this record.\<close>
  "formatListing Date_parse now l =
     \<lparr> listing_id = listing_id l, title = title l, organization = organization l,
       location = location l, description = description l, quantity = quantity l,
       dietaryRestrictions = dietaryRestrictions l,
       availabilityStatus = availabilityStatus l, expirationDate = expirationDate l,
       imageUrl = imageUrl l, userId = userId l,
       tags = Some (parseTags (dietaryRestrictions l)),
       status = availabilityStatus l,
       duration = durationHours (getTime (Date_parse (expirationDate l))) (getTime (Some now)),
       reservations = 0,
       first_image = (case imageUrl l of [] \<Rightarrow> None | u # _ \<Rightarrow> Some u) \<rparr>"

subsection \<open>Responses of the API\<close>

text \<open>
  What \<^verbatim>\<open>await fetch(...)\<close> and \<^verbatim>\<open>await response.json()\<close> can give. The JSON
  object is kept as far as the code looks into it: the truthiness of \<^verbatim>\<open>success\<close>, the
  array under \<^verbatim>\<open>data\<close> (\<open>None\<close> when \<^verbatim>\<open>Array.isArray\<close> is false) with its elements
  taken as well-typed records, and \<^verbatim>\<open>message\<close> (the empty string also when absent:
  \<^verbatim>\<open>message || fallback\<close> treats both alike).
\<close>

record envelope =
  success :: bool
  data :: "ServerListing list option"
  message :: jsstring

datatype body =
    NotJSON jsstring  \<comment> \<open>\<^verbatim>\<open>response.json()\<close> rejects, or gives \<^verbatim>\<open>null\<close> so that reading a
                        property throws: the message of that error\<close>
  | JSON envelope

datatype fetch_outcome =
    Rejected jsstring  \<comment> \<open>\<^verbatim>\<open>fetch\<close> rejects (no response) with an error of this message\<close>
  | Response nat body  \<comment> \<open>the status code and the body\<close>

definition ok :: "nat \<Rightarrow> bool" where
  \<comment> \<open>\<^verbatim>\<open>response.ok\<close>\<close>
  "ok st = (200 \<le> st \<and> st \<le> 299)"

definition js_or :: "jsstring \<Rightarrow> jsstring \<Rightarrow> jsstring" where
  \<comment> \<open>\<^verbatim>\<open>a || b\<close> on strings\<close>
  "js_or a b = (if truthy a then a else b)"

subsection \<open>The component's state\<close>

record DashboardState =
  listings :: "Listing list"
  searchQuery :: jsstring
  isLoading :: bool
  error :: "jsstring option"

subsection \<open>fetchListings\<close>

fun formattedListings ::
  "(jsstring \<Rightarrow> int option) \<Rightarrow> (nat \<Rightarrow> int) \<Rightarrow> nat \<Rightarrow> ServerListing list \<Rightarrow> Listing list" where
  \<comment> \<open>\<^verbatim>\<open>result.data.map(callback)\<close>. The callback runs \<^verbatim>\<open>new Date()\<close> once for each
      record; \<open>clock k\<close> is the time value the \<open>k\<close>-th reading of the call returns.\<close>
  "formattedListings Date_parse clock k [] = []"
| "formattedListings Date_parse clock k (l # ls) =
     formatListing Date_parse (clock k) l # formattedListings Date_parse clock (Suc k) ls"

definition fetchListings_try ::
  "(jsstring \<Rightarrow> int option) \<Rightarrow> (nat \<Rightarrow> int) \<Rightarrow> fetch_outcome \<Rightarrow> jsstring + Listing list" where
  \<comment> \<open>The \<^verbatim>\<open>try\<close> block, lines 40-78: \<open>Inl\<close> the message of the error thrown, \<open>Inr\<close> the
      argument of \<^verbatim>\<open>setListings\<close>.\<close>
  "fetchListings_try Date_parse clock r =
     (case r of
        Rejected m \<Rightarrow> Inl m
      | Response st b \<Rightarrow>
          if \<not> ok st then Inl (str ''Error '' @ string_of_nat st @ str '': Failed to fetch listings'')
          else (case b of
                  NotJSON m \<Rightarrow> Inl m
                | JSON result \<Rightarrow>
                    if success result \<and> data result \<noteq> None
                    then Inr (formattedListings Date_parse clock 0 (the (data result)))
                    else Inl (str ''Invalid response format'')))"

definition fetchListings ::
  "(jsstring \<Rightarrow> int option) \<Rightarrow> (nat \<Rightarrow> int) \<Rightarrow> fetch_outcome \<Rightarrow> DashboardState \<Rightarrow> DashboardState" where
  \<comment> \<open>Lines 36-85. Everything thrown in the \<^verbatim>\<open>try\<close> block is an \<^verbatim>\<open>Error\<close>, so the
      \<^verbatim>\<open>catch\<close> stores its message; \<^verbatim>\<open>finally\<close> clears the loading flag.\<close>
  "fetchListings Date_parse clock r s =
     (let s1 = s\<lparr>isLoading := True, error := None\<rparr>;
          s2 = (case fetchListings_try Date_parse clock r of
                  Inr formatted \<Rightarrow> s1\<lparr>listings := formatted\<rparr>
                | Inl m \<Rightarrow> s1\<lparr>error := Some m\<rparr>)
      in s2\<lparr>isLoading := False\<rparr>)"

subsection \<open>handleDelete\<close>

definition handleDelete_try :: "fetch_outcome \<Rightarrow> jsstring + unit" where
  \<comment> \<open>The \<^verbatim>\<open>try\<close> block, lines 93-111: \<open>Inl\<close> the message of the error thrown, \<open>Inr\<close> when
      \<^verbatim>\<open>setListings\<close> is reached.\<close>
  "handleDelete_try r =
     (case r of
        Rejected m \<Rightarrow> Inl m
      | Response st b \<Rightarrow>
          if \<not> ok st then
            (case b of
               NotJSON m \<Rightarrow> Inl m
             | JSON errorData \<Rightarrow>
                 Inl (js_or (message errorData)
                        (str ''Error '' @ string_of_nat st @ str '': Failed to delete listing'')))
          else
            (case b of
               NotJSON m \<Rightarrow> Inl m
             | JSON result \<Rightarrow>
                 if success result then Inr ()
                 else Inl (js_or (message result) (str ''Failed to delete listing''))))"

text \<open>
  What a call does, in the order of its statements: the component's state changes through
  \<^verbatim>\<open>setListings\<close> and \<^verbatim>\<open>setError\<close> only, and the trace says where these stand relative to
  the request and its response.
\<close>

datatype effect =
    Confirm  \<comment> \<open>\<^verbatim>\<open>window.confirm\<close> asks the user, line 89\<close>
  | Request int  \<comment> \<open>\<^verbatim>\<open>fetch\<close> sends the DELETE request for this identifier, line 94\<close>
  | Received fetch_outcome  \<comment> \<open>the awaited outcome of the request arrives, lines 94-104\<close>
  | SetListings int  \<comment> \<open>\<^verbatim>\<open>setListings\<close> with the updater that filters this identifier
                         out, line 108\<close>
  | SetError jsstring  \<comment> \<open>\<^verbatim>\<open>setError\<close>, line 114\<close>

definition handleDelete_effects :: "bool \<Rightarrow> fetch_outcome \<Rightarrow> int \<Rightarrow> effect list" where
  \<comment> \<open>Lines 88-116. \<open>confirmed\<close> is the answer of \<^verbatim>\<open>window.confirm\<close>, \<open>r\<close> the outcome
      of the DELETE request, which is sent only after a positive answer.\<close>
  "handleDelete_effects confirmed r ident =
     Confirm #
     (if \<not> confirmed then []
      else Request ident # Received r #
           (case handleDelete_try r of
              Inr _ \<Rightarrow> [SetListings ident]
            | Inl m \<Rightarrow> [SetError (str ''Failed to delete listing: '' @ m)]))"

fun apply_effect :: "DashboardState \<Rightarrow> effect \<Rightarrow> DashboardState" where
  "apply_effect s (SetListings ident) =
     s\<lparr>listings := filter (\<lambda>listing. listing_id listing \<noteq> ident) (listings s)\<rparr>"
| "apply_effect s (SetError m) = s\<lparr>error := Some m\<rparr>"
| "apply_effect s Confirm = s"
| "apply_effect s (Request ident) = s"
| "apply_effect s (Received r) = s"

definition run_effects :: "effect list \<Rightarrow> DashboardState \<Rightarrow> DashboardState" where
  \<comment> \<open>the state after the effects, first to last\<close>
  "run_effects es s = foldl apply_effect s es"

definition handleDelete :: "bool \<Rightarrow> fetch_outcome \<Rightarrow> int \<Rightarrow> DashboardState \<Rightarrow> DashboardState" where
  \<comment> \<open>the state after the call\<close>
  "handleDelete confirmed r ident s = run_effects (handleDelete_effects confirmed r ident) s"

subsection \<open>filteredListings\<close>



section \<open>NewListing.tsx\<close>

subsection \<open>The component's state\<close>

text \<open>The form starts with the number 1 as quantity; \<^verbatim>\<open>handleChange\<close> stores the input
  element's string.\<close>

datatype quantity_value = QNumber nat | QString jsstring

fun String_of :: "quantity_value \<Rightarrow> jsstring" where
  "String_of (QNumber n) = string_of_nat n"
| "String_of (QString v) = v"

type_synonym file_blob = string

record DraftListing =
  draft_title :: jsstring
  draft_organization :: jsstring
  draft_location :: jsstring
  draft_quantity :: quantity_value
  draft_dietaryRestrictions :: jsstring
  draft_description :: jsstring
  draft_availabilityStatus :: jsstring
  draft_expirationDate :: jsstring
  draft_image :: "file_blob option"

record NewListingState =
  listing :: DraftListing
  tagInput :: jsstring
  previewImage :: "jsstring option"
  isSubmitting :: bool
  form_error :: jsstring

subsection \<open>The tag accumulator\<close>

definition addTag :: "NewListingState \<Rightarrow> NewListingState" where
  \<comment> \<open>lines 63-75\<close>
  "addTag s =
     (let dr = draft_dietaryRestrictions (listing s) in
      if truthy (trim (tagInput s)) \<and> \<not> includes_str dr (trim (tagInput s)) then
        (let newRestrictions = (if truthy dr then dr @ str '', '' @ trim (tagInput s)
                                else trim (tagInput s))
         in s\<lparr>listing := (listing s)\<lparr>draft_dietaryRestrictions := newRestrictions\<rparr>,
               tagInput := []\<rparr>)
      else s)"

definition removeTag :: "jsstring \<Rightarrow> NewListingState \<Rightarrow> NewListingState" where
  \<comment> \<open>lines 77-85\<close>
  "removeTag tagToRemove s =
     (let tags = map trim (split comma (draft_dietaryRestrictions (listing s)));
          updatedTags = join (str '', '') (filter (\<lambda>tag. tag \<noteq> tagToRemove) tags)
      in s\<lparr>listing := (listing s)\<lparr>draft_dietaryRestrictions := updatedTags\<rparr>\<rparr>)"

definition dietaryTags :: "jsstring \<Rightarrow> jsstring list" where
  \<comment> \<open>lines 151-153\<close>
  "dietaryTags dr =
     (if truthy dr then filter truthy (map trim (split comma dr)) else [])"

subsection \<open>handleSubmit\<close>

datatype part = Text jsstring | File file_blob

type_synonym FormData = "(jsstring \<times> part) list"

definition handleSubmit_response :: "fetch_outcome \<Rightarrow> jsstring + unit" where
  \<comment> \<open>Lines 125-140, from the outcome of the POST request: \<open>Inl\<close> the message of the error
      thrown, \<open>Inr\<close> when \<^verbatim>\<open>navigate\<close> is reached.\<close>
  "handleSubmit_response r =
     (case r of
        Rejected m \<Rightarrow> Inl m
      | Response st b \<Rightarrow>
          if \<not> ok st then
            (case b of
               NotJSON m \<Rightarrow> Inl m
             | JSON errorData \<Rightarrow>
                 Inl (js_or (message errorData)
                        (str ''Error '' @ string_of_nat st @ str '': Failed to create listing'')))
          else (case b of NotJSON m \<Rightarrow> Inl m | JSON _ \<Rightarrow> Inr ()))"

definition handleSubmit ::
  "(jsstring \<Rightarrow> int option) \<Rightarrow> (int \<Rightarrow> jsstring) \<Rightarrow> (FormData \<Rightarrow> fetch_outcome) \<Rightarrow>
   NewListingState \<Rightarrow> NewListingState \<times> FormData list \<times> bool" where
  \<comment> \<open>Lines 95-148. \<open>Date_parse\<close> and \<open>toISOString\<close> are the platform's; \<open>server\<close> gives
      the outcome of a POST request from its body. The result is the state after the call,
      the bodies of the requests dispatched, in order, and whether \<^verbatim>\<open>navigate\<close> was
      called. \<^verbatim>\<open>toISOString\<close> on an invalid date throws a RangeError, whose message
      is written here as V8 words it.\<close>
  "handleSubmit Date_parse toISOString server s =
     (let s1 = s\<lparr>form_error := [], isSubmitting := True\<rparr>;
          failed = str ''Failed to create listing. Please try again.''
      in case draft_image (listing s) of
           None \<Rightarrow>
             (s1\<lparr>form_error := str ''Please upload an image for your listing'',
                 isSubmitting := False\<rparr>\<lparr>isSubmitting := False\<rparr>, [], False)
         | Some image_file \<Rightarrow>
             (case Date_parse (draft_expirationDate (listing s)) of
                None \<Rightarrow>
                  (s1\<lparr>form_error := js_or (str ''Invalid time value'') failed,
                      isSubmitting := False\<rparr>, [], False)
              | Some t \<Rightarrow>
                  (let formData =
                         [(str ''title'', Text (draft_title (listing s))),
                          (str ''quantity'', Text (String_of (draft_quantity (listing s)))),
                          (str ''description'', Text (draft_description (listing s))),
                          (str ''dietaryRestrictions'', Text (draft_dietaryRestrictions (listing s))),
                          (str ''location'', Text (draft_location (listing s))),
                          (str ''availabilityStatus'', Text (draft_availabilityStatus (listing s))),
                          (str ''expirationDate'', Text (toISOString t)),
                          (str ''images'', File image_file)]
                   in case handleSubmit_response (server formData) of
                        Inl m \<Rightarrow>
                          (s1\<lparr>form_error := js_or m failed, isSubmitting := False\<rparr>,
                           [formData], False)
                      | Inr _ \<Rightarrow> (s1\<lparr>isSubmitting := False\<rparr>, [formData], True))))"

section \<open>Specification-level notions\<close>

text \<open>The words of the specification, stated without reference to the code's functions.\<close>

definition is_comma_split :: "jsstring \<Rightarrow> jsstring list \<Rightarrow> bool" where
  \<comment> \<open>\<open>segs\<close> are the segments of \<open>s\<close> between its commas: comma-free pieces that give
      \<open>s\<close> back when a comma is put between neighbours\<close>
  "is_comma_split s segs =
     (segs \<noteq> [] \<and> join [comma] segs = s \<and> (\<forall>seg \<in> set segs. comma \<notin> set seg))"

definition is_trimmed :: "jsstring \<Rightarrow> jsstring \<Rightarrow> bool" where
  \<comment> \<open>\<open>t\<close> is \<open>seg\<close> without its leading and trailing white space\<close>
  "is_trimmed seg t =
     ((\<exists>pre post. seg = pre @ t @ post \<and>
         (\<forall>c \<in> set pre. isWhiteSpace c) \<and> (\<forall>c \<in> set post. isWhiteSpace c)) \<and>
      (t = [] \<or> (\<not> isWhiteSpace (hd t) \<and> \<not> isWhiteSpace (last t))))"

definition is_substring :: "jsstring \<Rightarrow> jsstring \<Rightarrow> bool" where
  \<comment> \<open>\<open>q\<close> occurs in \<open>s\<close> as a contiguous run\<close>
  "is_substring q s = (\<exists>pre post. s = pre @ q @ post)"







definition list_failed :: "fetch_outcome \<Rightarrow> bool" where
  \<comment> \<open>the list operation fails: no response, a non-2xx status, a body that is no JSON,
      a false success flag, or a payload that is not a sequence\<close>
  "list_failed r =
     (case r of
        Rejected m \<Rightarrow> True
      | Response st b \<Rightarrow>
          \<not> ok st \<or> (case b of NotJSON m \<Rightarrow> True
                       | JSON env \<Rightarrow> \<not> success env \<or> data env = None))"

definition delete_failed :: "fetch_outcome \<Rightarrow> bool" where
  \<comment> \<open>the delete request fails: no response, a non-2xx status, a body that is no JSON,
      or a false success flag on a 2xx response\<close>
  "delete_failed r =
     (case r of
        Rejected m \<Rightarrow> True
      | Response st b \<Rightarrow>
          \<not> ok st \<or> (case b of NotJSON m \<Rightarrow> True | JSON env \<Rightarrow> \<not> success env))"

section \<open>Sample inputs\<close>

definition sample_Date :: "jsstring \<Rightarrow> int option" where
  \<comment> \<open>A date parser that agrees with the ECMAScript one on the expiration strings of the
      sample listings: two ISO-8601 instants, one hour and one hour and a millisecond
      after the epoch, and a string that is no date.\<close>
  "sample_Date s =
     (if s = str ''1970-01-01T01:00:00.000Z'' then Some 3600000
      else if s = str ''1970-01-01T01:00:00.001Z'' then Some 3600001
      else None)"

definition sample_listing :: "jsstring \<Rightarrow> jsstring \<Rightarrow> ServerListing" where
  "sample_listing dr ex =
     \<lparr> listing_id = 1, title = str ''Bread'', organization = str ''Bakery'', location = str ''Main St'',
       description = str ''Fresh'', quantity = 3, dietaryRestrictions = dr,
       availabilityStatus = str ''Available'', expirationDate = ex,
       imageUrl = [], userId = 7 \<rparr>"

definition vegan_listing :: ServerListing where
  "vegan_listing = sample_listing (str ''Vegan, Gluten-Free'') (str ''1970-01-01T01:00:00.001Z'')"

definition undated_listing :: ServerListing where
  "undated_listing = sample_listing (str ''Vegan,'') (str ''not a date'')"

definition untagged_listing :: ServerListing where
  "untagged_listing = sample_listing [] (str ''1970-01-01T01:00:00.000Z'')"

definition two_listings :: envelope where
  "two_listings = \<lparr>success = True, data = Some [vegan_listing, vegan_listing], message = []\<rparr>"

definition refused :: envelope where
  "refused = \<lparr>success = False, data = None, message = str ''Food post not found''\<rparr>"

definition accepted :: envelope where
  "accepted = \<lparr>success = True, data = None, message = []\<rparr>"

definition frozen_clock :: "nat \<Rightarrow> int" where
  \<comment> \<open>a clock that does not advance during the call\<close>
  "frozen_clock k = 0"

definition sample_clock :: "nat \<Rightarrow> int" where
  \<comment> \<open>a clock that advances one millisecond from one reading to the next\<close>
  "sample_clock k = int k"

definition sample_state :: "DashboardState" where
  "sample_state =
     \<lparr> listings = [formatListing sample_Date 0 vegan_listing],
       searchQuery = str ''vegan'', isLoading = False, error = None \<rparr>"

definition sample_draft :: "NewListingState" where
  "sample_draft =
     \<lparr> listing = \<lparr> draft_title = str ''Bread'', draft_organization = str ''Bakery'',
                   draft_location = str ''Main St'', draft_quantity = QNumber 1,
                   draft_dietaryRestrictions = str ''Vegan'', draft_description = str ''Fresh'',
                   draft_availabilityStatus = str ''Available'',
                   draft_expirationDate = str ''1970-01-01T01:00'', draft_image = None \<rparr>,
       tagInput = str '' Halal '', previewImage = None, isSubmitting = False, form_error = [] \<rparr>"






definition sample_toISOString :: "int \<Rightarrow> jsstring" where
  \<comment> \<open>never applied on the path of a draft without image\<close>
  "sample_toISOString t = str ''1970-01-01T01:00:00.000Z''"

definition offline :: "FormData \<Rightarrow> fetch_outcome" where
  \<comment> \<open>a network on which every request is rejected\<close>
  "offline formData = Rejected (str ''Failed to fetch'')"

section \<open>Properties of the string functions\<close>

lemma unat_unit_of: "unat (unit_of c) = of_char c"
proof -
  have "(of_char c :: nat) mod 256 < 256" by (rule mod_less_divisor) simp
  then have "(of_char c :: nat) < 256" by (simp only: of_char_mod_256)
  also have "(256::nat) < 2 ^ LENGTH(16)" by simp
  finally have "(of_char c :: nat) < 2 ^ LENGTH(16)" .
  then show ?thesis unfolding unit_of_def by (simp add: unat_of_nat take_bit_nat_eq_self)
qed

lemma unit_of_inject [simp]: "unit_of a = unit_of b \<longleftrightarrow> a = b"
proof
  assume "unit_of a = unit_of b"
  then have "unat (unit_of a) = unat (unit_of b)" by simp
  then have "(of_char a :: nat) = of_char b" by (simp only: unat_unit_of)
  then show "a = b" by simp
qed simp

lemma str_inject [simp]: "str a = str b \<longleftrightarrow> a = b"
  by (simp add: str_def inj_on_def inj_map_eq_map [of unit_of, unfolded inj_on_def])

lemma str_Nil_iff [simp]: "str s = [] \<longleftrightarrow> s = []" "[] = str s \<longleftrightarrow> s = []"
  by (auto simp: str_def)

lemma str_append: "str (a @ b) = str a @ str b"
  by (simp add: str_def)

lemmas lit = str_def unit_of_def comma_def

lemma split_nonempty: "split sep s \<noteq> []"
  by (induction s) (auto simp: Let_def)

lemma split_no_sep: "seg \<in> set (split sep s) \<Longrightarrow> sep \<notin> set seg"
proof (induction s arbitrary: seg)
  case Nil
  then show ?case by simp
next
  case (Cons c cs)
  show ?case
  proof (cases "c = sep")
    case True
    with Cons show ?thesis by auto
  next
    case False
    obtain x xs where r: "split sep cs = x # xs"
      using split_nonempty [of sep cs] by (cases "split sep cs") auto
    from Cons.prems False r have "seg = c # x \<or> seg \<in> set xs"
      by (simp add: Let_def)
    then show ?thesis
      using Cons.IH [of x] Cons.IH [of seg] r False by auto
  qed
qed

lemma join_Cons: "ys \<noteq> [] \<Longrightarrow> join sep (x # ys) = x @ sep @ join sep ys"
  by (cases ys) auto

lemma join_split: "join [sep] (split sep s) = s"
proof (induction s)
  case Nil
  then show ?case by simp
next
  case (Cons c cs)
  obtain x xs where r: "split sep cs = x # xs"
    using split_nonempty [of sep cs] by (cases "split sep cs") auto
  show ?case
  proof (cases "c = sep")
    case True
    then show ?thesis using Cons by (simp add: join_Cons split_nonempty)
  next
    case False
    then show ?thesis using Cons r by (cases xs) (auto simp: Let_def)
  qed
qed

lemma trim_decompose:
  "s = takeWhile isWhiteSpace s @ trim s @
       rev (takeWhile isWhiteSpace (rev (dropWhile isWhiteSpace s)))"
proof -
  let ?d = "dropWhile isWhiteSpace s"
  have "rev ?d = takeWhile isWhiteSpace (rev ?d) @ dropWhile isWhiteSpace (rev ?d)"
    by simp
  then have "?d = rev (dropWhile isWhiteSpace (rev ?d)) @ rev (takeWhile isWhiteSpace (rev ?d))"
    by (metis rev_append rev_rev_ident)
  then have "?d = trim s @ rev (takeWhile isWhiteSpace (rev ?d))"
    by (simp add: trim_def)
  moreover have "s = takeWhile isWhiteSpace s @ ?d" by simp
  ultimately show ?thesis by metis
qed

lemma trim_hd: "trim s \<noteq> [] \<Longrightarrow> \<not> isWhiteSpace (hd (trim s))"
proof -
  assume ne: "trim s \<noteq> []"
  let ?d = "dropWhile isWhiteSpace s"
  let ?e = "dropWhile isWhiteSpace (rev ?d)"
  from ne have e: "?e \<noteq> []" by (simp add: trim_def)
  then have "rev ?d \<noteq> []" by (metis dropWhile.simps(1))
  then have d: "?d \<noteq> []" by simp
  have hd_d: "\<not> isWhiteSpace (hd ?d)" using d by (rule hd_dropWhile)
  have "rev ?d = takeWhile isWhiteSpace (rev ?d) @ ?e" by simp
  then have "?d = rev ?e @ rev (takeWhile isWhiteSpace (rev ?d))"
    by (metis rev_append rev_rev_ident)
  then have "hd ?d = hd (rev ?e)" using e by (metis hd_append2 rev_is_Nil_conv)
  with hd_d show ?thesis by (simp add: trim_def)
qed

lemma trim_last: "trim s \<noteq> [] \<Longrightarrow> \<not> isWhiteSpace (last (trim s))"
proof -
  assume ne: "trim s \<noteq> []"
  let ?e = "dropWhile isWhiteSpace (rev (dropWhile isWhiteSpace s))"
  from ne have e: "?e \<noteq> []" by (simp add: trim_def)
  then have "\<not> isWhiteSpace (hd ?e)" by (rule hd_dropWhile)
  then show ?thesis using e by (simp add: trim_def last_rev)
qed

lemma trim_Nil_iff: "trim s = [] \<longleftrightarrow> (\<forall>c \<in> set s. isWhiteSpace c)"
proof
  assume "trim s = []"
  then have "dropWhile isWhiteSpace (rev (dropWhile isWhiteSpace s)) = []"
    by (simp add: trim_def)
  then have "\<forall>c \<in> set (dropWhile isWhiteSpace s). isWhiteSpace c"
    by simp
  then have "dropWhile isWhiteSpace s = []"
    by (metis hd_dropWhile hd_in_set)
  then show "\<forall>c \<in> set s. isWhiteSpace c"
    by simp
next
  assume "\<forall>c \<in> set s. isWhiteSpace c"
  then have "dropWhile isWhiteSpace s = []" by simp
  then show "trim s = []" by (simp only: trim_def rev.simps dropWhile.simps)
qed

lemma split_is_comma_split: "is_comma_split s (split comma s)"
  unfolding is_comma_split_def
  using split_nonempty [of "comma" s] join_split [of "comma" s] split_no_sep [of _ "comma" s]
  by auto

lemma split_no_sep_id: "sep \<notin> set x \<Longrightarrow> split sep x = [x]"
  by (induction x) (auto simp: Let_def)

lemma split_append_sep: "sep \<notin> set x \<Longrightarrow> split sep (x @ sep # r) = x # split sep r"
  by (induction x) (auto simp: Let_def)

lemma comma_split_unique: "is_comma_split s segs \<Longrightarrow> segs = split comma s"
proof (induction segs arbitrary: s)
  case Nil
  then show ?case by (simp add: is_comma_split_def)
next
  case (Cons x xs)
  show ?case
  proof (cases xs)
    case Nil
    with Cons.prems have "s = x" and "comma \<notin> set x"
      by (auto simp: is_comma_split_def)
    then show ?thesis using Nil by (simp add: split_no_sep_id)
  next
    case (Cons y ys)
    from Cons.prems Cons have s: "s = x @ comma # join [comma] xs" and x: "comma \<notin> set x"
      and rest: "is_comma_split (join [comma] xs) xs"
      by (auto simp: is_comma_split_def)
    from Cons.IH [OF rest] have "xs = split comma (join [comma] xs)" .
    then show ?thesis using s x by (simp add: split_append_sep)
  qed
qed

lemma trim_is_trimmed: "is_trimmed seg (trim seg)"
proof -
  have "\<forall>c \<in> set (takeWhile isWhiteSpace seg). isWhiteSpace c"
    by (auto dest: set_takeWhileD)
  moreover have "\<forall>c \<in> set (rev (takeWhile isWhiteSpace (rev (dropWhile isWhiteSpace seg)))). isWhiteSpace c"
    by (auto dest: set_takeWhileD)
  ultimately have "\<exists>pre post. seg = pre @ trim seg @ post \<and>
        (\<forall>c \<in> set pre. isWhiteSpace c) \<and> (\<forall>c \<in> set post. isWhiteSpace c)"
    using trim_decompose [of seg] by blast
  then show ?thesis
    unfolding is_trimmed_def using trim_hd [of seg] trim_last [of seg] by blast
qed

lemma parseTags_Vegan: "parseTags (str ''Vegan, Gluten-Free'') = [str ''Vegan'', str ''Gluten-Free'']"
  by (simp add: parseTags_def truthy_def trim_def isWhiteSpace_def Let_def lit)

lemma parseTags_trailing: "parseTags (str ''Vegan,'') = [str ''Vegan'', []]"
  by (simp add: parseTags_def truthy_def trim_def isWhiteSpace_def Let_def lit)

lemma dietaryTags_trailing: "dietaryTags (str ''Vegan,'') = [str ''Vegan'']"
  by (simp add: dietaryTags_def truthy_def trim_def isWhiteSpace_def Let_def lit)

lemma tags_formatListing: "tags (formatListing P now l) = Some (parseTags (dietaryRestrictions l))"
  by (simp add: formatListing_def)

section \<open>Facts about the sample inputs\<close>

lemma vegan_listing_fields:
  "dietaryRestrictions vegan_listing = (str ''Vegan, Gluten-Free'')"
  "expirationDate vegan_listing = (str ''1970-01-01T01:00:00.001Z'')"
  "sample_Date (expirationDate vegan_listing) = Some 3600001"
  by (simp_all add: vegan_listing_def sample_listing_def sample_Date_def)

lemma undated_listing_fields:
  "dietaryRestrictions undated_listing = (str ''Vegan,'')"
  "sample_Date (expirationDate undated_listing) = None"
  by (simp_all add: undated_listing_def sample_listing_def sample_Date_def)

lemma untagged_listing_fields:
  "dietaryRestrictions untagged_listing = []"
  by (simp_all add: untagged_listing_def sample_listing_def)

lemma split_trailing: "split comma (str ''Vegan,'') = [str ''Vegan'', []]"
  by (simp add: Let_def lit)

section \<open>The tags of a decoded record\<close>

text \<open>
  Claim C6. For every record of the API (and every date parser and evaluation time), the
  \<open>tags\<close> of the decoded record are the trimmed segments, in order, of the
  dietary-restriction string split on commas; the empty string gives no tag at all, and
  \<^verbatim>\<open>"Vegan, Gluten-Free"\<close> gives exactly \<open>Vegan\<close> and \<open>Gluten-Free\<close>.
\<close>

theorem decode_tags:
  "(dietaryRestrictions l = [] \<longrightarrow> tags (formatListing P now l) = Some []) \<and>
   (dietaryRestrictions l = str ''Vegan, Gluten-Free'' \<longrightarrow>
      tags (formatListing P now l) = Some [str ''Vegan'', str ''Gluten-Free'']) \<and>
   (dietaryRestrictions l \<noteq> [] \<longrightarrow>
      (\<exists>segs. is_comma_split (dietaryRestrictions l) segs \<and>
         tags (formatListing P now l) = Some (map trim segs) \<and>
         (\<forall>seg \<in> set segs. is_trimmed seg (trim seg))))"
proof (intro conjI impI)
  assume "dietaryRestrictions l = []"
  then show "tags (formatListing P now l) = Some []"
    by (simp add: tags_formatListing parseTags_def truthy_def)
next
  assume "dietaryRestrictions l = (str ''Vegan, Gluten-Free'')"
  then show "tags (formatListing P now l) = Some [str ''Vegan'', str ''Gluten-Free'']"
    by (simp only: tags_formatListing parseTags_Vegan)
next
  assume ne: "dietaryRestrictions l \<noteq> []"
  let ?segs = "split comma (dietaryRestrictions l)"
  have "is_comma_split (dietaryRestrictions l) ?segs" by (rule split_is_comma_split)
  moreover have "tags (formatListing P now l) = Some (map trim ?segs)"
    using ne by (simp add: tags_formatListing parseTags_def truthy_def)
  moreover have "\<forall>seg \<in> set ?segs. is_trimmed seg (trim seg)"
    by (simp add: trim_is_trimmed)
  ultimately show "\<exists>segs. is_comma_split (dietaryRestrictions l) segs \<and>
         tags (formatListing P now l) = Some (map trim segs) \<and>
         (\<forall>seg \<in> set segs. is_trimmed seg (trim seg))" by blast
qed

theorem decode_tags_witness:
  "dietaryRestrictions untagged_listing = [] \<and>
   tags (formatListing sample_Date 0 untagged_listing) = Some [] \<and>
   dietaryRestrictions vegan_listing = str ''Vegan, Gluten-Free'' \<and>
   tags (formatListing sample_Date 0 vegan_listing) = Some [str ''Vegan'', str ''Gluten-Free'']"
proof -
  note e = untagged_listing_fields(1)
  note v = vegan_listing_fields(1)
  from decode_tags [of untagged_listing sample_Date 0] e
  have "tags (formatListing sample_Date 0 untagged_listing) = Some []" by blast
  moreover from decode_tags [of vegan_listing sample_Date 0] v
  have "tags (formatListing sample_Date 0 vegan_listing) = Some [str ''Vegan'', str ''Gluten-Free'']"
    by blast
  ultimately show ?thesis using e v by blast
qed

text \<open>
  Claim C10. When the dietary-restriction string is not empty and its \<open>i\<close>-th
  comma-delimited segment is empty (or only white space), the decoded record has one tag
  for every segment and its \<open>i\<close>-th tag is the empty string: decoding filters nothing out,
  whereas the tag display of the draft form never shows an empty tag.
\<close>

theorem decode_keeps_empty_segments:
  assumes "dietaryRestrictions l \<noteq> []"
    and "i < length (split comma (dietaryRestrictions l))"
    and "\<forall>c \<in> set (split comma (dietaryRestrictions l) ! i). isWhiteSpace c"
  shows "\<exists>ts. tags (formatListing P now l) = Some ts \<and>
           length ts = length (split comma (dietaryRestrictions l)) \<and>
           ts ! i = [] \<and>
           [] \<notin> set (dietaryTags (dietaryRestrictions l))"
proof -
  let ?segs = "split comma (dietaryRestrictions l)"
  have t: "tags (formatListing P now l) = Some (map trim ?segs)"
    using assms(1) by (simp add: tags_formatListing parseTags_def truthy_def)
  have "map trim ?segs ! i = trim (?segs ! i)" using assms(2) by simp
  also have "\<dots> = []" using assms(3) by (simp only: trim_Nil_iff)
  finally have e: "map trim ?segs ! i = []" .
  have "[] \<notin> set (dietaryTags (dietaryRestrictions l))"
    by (auto simp: dietaryTags_def truthy_def)
  with t e show ?thesis by simp
qed

theorem decode_keeps_empty_segments_witness:
  "dietaryRestrictions undated_listing = str ''Vegan,'' \<and>
   split comma (dietaryRestrictions undated_listing) ! 1 = [] \<and>
   tags (formatListing sample_Date 0 undated_listing) = Some [str ''Vegan'', []] \<and>
   dietaryTags (dietaryRestrictions undated_listing) = [str ''Vegan'']"
proof -
  note d = undated_listing_fields(1)
  have h1: "dietaryRestrictions undated_listing \<noteq> []" by (simp add: d)
  have h2: "1 < length (split comma (dietaryRestrictions undated_listing))"
    by (simp add: d split_trailing)
  have seg: "split comma (dietaryRestrictions undated_listing) ! 1 = []"
    by (simp add: d split_trailing)
  then have h3: "\<forall>c \<in> set (split comma (dietaryRestrictions undated_listing) ! 1). isWhiteSpace c"
    by simp
  from decode_keeps_empty_segments [OF h1 h2 h3, of sample_Date 0]
  obtain ts where ts: "tags (formatListing sample_Date 0 undated_listing) = Some ts"
    and "ts ! 1 = []" by blast
  have "tags (formatListing sample_Date 0 undated_listing) = Some [str ''Vegan'', []]"
    by (simp add: tags_formatListing d parseTags_trailing)
  moreover have "dietaryTags (dietaryRestrictions undated_listing) = [str ''Vegan'']"
    by (simp add: d dietaryTags_trailing)
  ultimately show ?thesis using d seg ts by blast
qed

section \<open>The duration of a decoded record\<close>

lemma durationHours_valid:
  "durationHours (getTime (Some e)) (getTime (Some now)) =
     Num (of_int (max 0 \<lceil>(of_int e - of_int now) / (3600000::real)\<rceil>))"
  by (simp add: durationHours_def max_def)

lemma durationHours_invalid: "durationHours (getTime None) (getTime (Some now)) = NaN"
  by (simp add: durationHours_def)

lemma duration_formatListing:
  "duration (formatListing P now l) =
     durationHours (getTime (P (expirationDate l))) (getTime (Some now))"
  by (simp add: formatListing_def)

lemma hours_past: "e \<le> now \<Longrightarrow> \<lceil>(of_int e - of_int now) / (3600000::real)\<rceil> \<le> 0"
proof -
  assume "e \<le> now"
  then have "(of_int e - of_int now) / (3600000::real) \<le> 0"
    by (simp add: divide_nonpos_pos)
  then show ?thesis by (simp add: ceiling_le_iff)
qed

lemma hours_antimono:
  "t1 \<le> t2 \<Longrightarrow>
     \<lceil>(of_int e - of_int t2) / (3600000::real)\<rceil> \<le> \<lceil>(of_int e - of_int t1) / (3600000::real)\<rceil>"
proof -
  assume "t1 \<le> t2"
  then have "(of_int e - of_int t2) / (3600000::real) \<le> (of_int e - of_int t1) / 3600000"
    by (simp add: divide_right_mono)
  then show ?thesis by (rule ceiling_mono)
qed

text \<open>
  Claim C1, as the code has it. When the expiration timestamp parses as a date,
  \<open>duration\<close> is a non-negative integer, the ceiling of the hours from the evaluation
  time to the expiration, floored at zero; it is 0 whenever the expiration is not after
  the evaluation time. When the timestamp does not parse, nothing is thrown and
  \<open>duration\<close> is NaN: \<^verbatim>\<open>Math.max(0, NaN)\<close> is NaN, not 0.
\<close>

theorem decode_duration:
  "duration (formatListing P now l) =
     (case P (expirationDate l) of
        None \<Rightarrow> NaN
      | Some e \<Rightarrow> Num (of_int (max 0 \<lceil>(of_int e - of_int now) / (3600000::real)\<rceil>))) \<and>
   (\<forall>e. P (expirationDate l) = Some e \<and> e \<le> now \<longrightarrow> duration (formatListing P now l) = Num 0)"
proof (intro conjI allI impI)
  show "duration (formatListing P now l) =
     (case P (expirationDate l) of
        None \<Rightarrow> NaN
      | Some e \<Rightarrow> Num (of_int (max 0 \<lceil>(of_int e - of_int now) / (3600000::real)\<rceil>)))"
    by (cases "P (expirationDate l)")
       (simp_all only: duration_formatListing durationHours_valid durationHours_invalid option.case)
next
  fix e assume a: "P (expirationDate l) = Some e \<and> e \<le> now"
  then have "max 0 \<lceil>(of_int e - of_int now) / (3600000::real)\<rceil> = 0"
    using hours_past [of e now] by simp
  then show "duration (formatListing P now l) = Num 0"
    using a by (simp only: duration_formatListing durationHours_valid) simp
qed

theorem decode_duration_witness:
  "sample_Date (expirationDate vegan_listing) = Some 3600001 \<and>
   duration (formatListing sample_Date 0 vegan_listing) = Num 2 \<and>
   duration (formatListing sample_Date 3600000 vegan_listing) = Num 1 \<and>
   duration (formatListing sample_Date 3600001 vegan_listing) = Num 0 \<and>
   duration (formatListing sample_Date 9000000 vegan_listing) = Num 0 \<and>
   sample_Date (expirationDate undated_listing) = None \<and>
   duration (formatListing sample_Date 0 undated_listing) = NaN"
proof -
  note p = vegan_listing_fields(3)
  note u = undated_listing_fields(2)
  have a: "duration (formatListing sample_Date 0 vegan_listing) = Num 2"
    using decode_duration [of sample_Date 0 vegan_listing] by (simp add: p)
  have b: "duration (formatListing sample_Date 3600000 vegan_listing) = Num 1"
    using decode_duration [of sample_Date 3600000 vegan_listing] by (simp add: p ceiling_eq_iff)
  have c: "duration (formatListing sample_Date 3600001 vegan_listing) = Num 0"
    using decode_duration [of sample_Date 3600001 vegan_listing] p by simp
  have d: "duration (formatListing sample_Date 9000000 vegan_listing) = Num 0"
    using decode_duration [of sample_Date 9000000 vegan_listing] p by simp
  have e: "duration (formatListing sample_Date 0 undated_listing) = NaN"
    using decode_duration [of sample_Date 0 undated_listing] by (simp add: u)
  show ?thesis using p u a b c d e by blast
qed

text \<open>The claim as stated fails on an expiration string that is no date: the duration is
  NaN where the claim promises 0.\<close>

theorem decode_duration_unparsable_counterexample:
  "sample_Date (expirationDate undated_listing) = None \<and>
   duration (formatListing sample_Date 0 undated_listing) = NaN \<and>
   duration (formatListing sample_Date 0 undated_listing) \<noteq> Num 0"
  by (simp add: undated_listing_fields duration_formatListing durationHours_def)

section \<open>Decoding at two evaluation times\<close>

lemma formatListing_now_independent:
  "tags (formatListing P t1 l) = tags (formatListing P t2 l) \<and>
   status (formatListing P t1 l) = status (formatListing P t2 l) \<and>
   first_image (formatListing P t1 l) = first_image (formatListing P t2 l)"
  by (simp add: formatListing_def)

text \<open>
  Claim C8, as the code has it. The decoded record is a function of the record, the date
  parser and the evaluation time alone. For a record whose expiration timestamp parses
  and evaluation times \<open>t1 \<le> t2\<close>, decoding at \<open>t2\<close> gives the same tags, status and
  first image as at \<open>t1\<close> and a duration that is \<^verbatim>\<open><=\<close> the one at \<open>t1\<close>.
\<close>

theorem decode_monotone:
  assumes "P (expirationDate l) = Some e" and "t1 \<le> t2"
  shows "tags (formatListing P t2 l) = tags (formatListing P t1 l) \<and>
         status (formatListing P t2 l) = status (formatListing P t1 l) \<and>
         first_image (formatListing P t2 l) = first_image (formatListing P t1 l) \<and>
         js_le (duration (formatListing P t2 l)) (duration (formatListing P t1 l))"
proof -
  have "js_le (duration (formatListing P t2 l)) (duration (formatListing P t1 l))"
    using assms(1) hours_antimono [OF assms(2), of e]
    by (simp only: duration_formatListing durationHours_valid) simp
  then show ?thesis using formatListing_now_independent [of P t2 l t1] by simp
qed

theorem decode_monotone_witness:
  "sample_Date (expirationDate vegan_listing) = Some 3600001 \<and> (0::int) \<le> 1 \<and>
   duration (formatListing sample_Date 0 vegan_listing) = Num 2 \<and>
   duration (formatListing sample_Date 1 vegan_listing) = Num 1 \<and>
   js_le (duration (formatListing sample_Date 1 vegan_listing))
         (duration (formatListing sample_Date 0 vegan_listing)) \<and>
   tags (formatListing sample_Date 1 vegan_listing) = tags (formatListing sample_Date 0 vegan_listing)"
proof -
  note p = vegan_listing_fields(3)
  have le: "(0::int) \<le> 1" by simp
  note m = decode_monotone [of sample_Date vegan_listing 3600001 0 1, OF p le]
  have a: "duration (formatListing sample_Date 0 vegan_listing) = Num 2"
    by (simp add: duration_formatListing p durationHours_def)
  have b: "duration (formatListing sample_Date 1 vegan_listing) = Num 1"
    by (simp add: duration_formatListing p durationHours_def)
  show ?thesis using p le m a b by blast
qed

text \<open>For an expiration string that is no date both durations are NaN, and
  \<^verbatim>\<open>NaN <= NaN\<close> is false.\<close>

theorem decode_monotone_unparsable_counterexample:
  "\<not> js_le (duration (formatListing sample_Date 1 undated_listing))
           (duration (formatListing sample_Date 0 undated_listing))"
  by (simp add: undated_listing_fields duration_formatListing durationHours_def)

section \<open>The evaluation time within one refresh\<close>

lemma formattedListings_length: "length (formattedListings P clock k recs) = length recs"
  by (induction recs arbitrary: k) auto

lemma formattedListings_nth:
  "i < length recs \<Longrightarrow>
     formattedListings P clock k recs ! i = formatListing P (clock (k + i)) (recs ! i)"
proof (induction recs arbitrary: k i)
  case Nil
  then show ?case by simp
next
  case (Cons r rs)
  then show ?case by (cases i) auto
qed

lemma formattedListings_constant_clock:
  "(\<forall>i < length recs. clock (k + i) = t) \<Longrightarrow>
     formattedListings P clock k recs = map (formatListing P t) recs"
proof (induction recs arbitrary: k)
  case Nil
  then show ?case by simp
next
  case (Cons r rs)
  have "clock k = t" using Cons.prems by force
  moreover have "\<forall>i < length rs. clock (Suc k + i) = t"
    using Cons.prems by force
  ultimately show ?case using Cons.IH [of "Suc k"] by simp
qed

lemma fetchListings_success:
  "ok st \<Longrightarrow> success env \<Longrightarrow> data env = Some recs \<Longrightarrow>
     fetchListings P clock (Response st (JSON env)) s =
       s\<lparr>listings := formattedListings P clock 0 recs, isLoading := False, error := None\<rparr>"
  by (simp add: fetchListings_def fetchListings_try_def Let_def)

text \<open>
  Claim C2, as the code has it. On a successful refresh the \<open>i\<close>-th record of the
  fetched collection is decoded at the \<open>i\<close>-th reading of the clock: the current time is
  read inside the decode step, once for each record. The durations of one refresh are
  relative to one instant when all these readings return the same time value.
\<close>

theorem fetchListings_reads_clock_per_record:
  assumes "ok st" and "success env" and "data env = Some recs"
  shows "length (listings (fetchListings P clock (Response st (JSON env)) s)) = length recs \<and>
         (\<forall>i < length recs.
            listings (fetchListings P clock (Response st (JSON env)) s) ! i =
              formatListing P (clock i) (recs ! i)) \<and>
         ((\<forall>i < length recs. clock i = t) \<longrightarrow>
            listings (fetchListings P clock (Response st (JSON env)) s) =
              map (formatListing P t) recs)"
proof -
  have l: "listings (fetchListings P clock (Response st (JSON env)) s) =
             formattedListings P clock 0 recs"
    using assms by (simp add: fetchListings_success)
  show ?thesis
    unfolding l
    using formattedListings_nth [of _ recs P clock 0]
      formattedListings_constant_clock [of recs clock 0 t P]
    by (simp add: formattedListings_length)
qed

lemma ok_200: "ok 200"
  by (simp add: ok_def)

lemma not_ok_404: "\<not> ok 404"
  by (simp add: ok_def)

lemma two_listings_fields:
  "success two_listings" "data two_listings = Some [vegan_listing, vegan_listing]"
  by (simp_all add: two_listings_def)

theorem fetchListings_reads_clock_per_record_witness:
  "ok 200 \<and> success two_listings \<and> data two_listings = Some [vegan_listing, vegan_listing] \<and>
   listings (fetchListings sample_Date sample_clock (Response 200 (JSON two_listings)) sample_state) ! 0
     = formatListing sample_Date (sample_clock 0) vegan_listing \<and>
   listings (fetchListings sample_Date sample_clock (Response 200 (JSON two_listings)) sample_state) ! 1
     = formatListing sample_Date (sample_clock 1) vegan_listing \<and>
   listings (fetchListings sample_Date frozen_clock (Response 200 (JSON two_listings)) sample_state)
     = map (formatListing sample_Date 0) [vegan_listing, vegan_listing]"
proof -
  note t = fetchListings_reads_clock_per_record [OF ok_200 two_listings_fields]
  have "\<forall>i < length [vegan_listing, vegan_listing]. frozen_clock i = 0"
    by (simp add: frozen_clock_def)
  with t [of sample_Date frozen_clock sample_state 0]
  have frozen: "listings (fetchListings sample_Date frozen_clock (Response 200 (JSON two_listings))
        sample_state) = map (formatListing sample_Date 0) [vegan_listing, vegan_listing]"
    by blast
  from t [of sample_Date sample_clock sample_state 0]
  have each: "\<forall>i < length [vegan_listing, vegan_listing].
      listings (fetchListings sample_Date sample_clock (Response 200 (JSON two_listings))
        sample_state) ! i = formatListing sample_Date (sample_clock i) ([vegan_listing, vegan_listing] ! i)"
    by blast
  from each have "listings (fetchListings sample_Date sample_clock (Response 200 (JSON two_listings))
        sample_state) ! 0 = formatListing sample_Date (sample_clock 0) vegan_listing"
    by force
  moreover from each have "listings (fetchListings sample_Date sample_clock
        (Response 200 (JSON two_listings)) sample_state) ! 1
      = formatListing sample_Date (sample_clock 1) vegan_listing"
    by force
  ultimately show ?thesis using ok_200 two_listings_fields frozen by blast
qed

lemma shared_timestamp_equal_durations:
  "map duration (map (formatListing P t) [l, l]) \<noteq> [Num 2, Num 1]"
  by simp

text \<open>Two identical records in one refresh, with a clock that advances by a millisecond
  between them, get the durations 2 and 1; decoded at one shared evaluation time they would
  get equal durations (\<open>shared_timestamp_equal_durations\<close>).\<close>

theorem fetchListings_shared_timestamp_counterexample:
  "map duration
     (listings (fetchListings sample_Date sample_clock (Response 200 (JSON two_listings))
        sample_state))
   = [Num 2, Num 1]"
  by (simp add: fetchListings_success ok_200 two_listings_fields sample_clock_def
      vegan_listing_fields(3) duration_formatListing durationHours_def)

section \<open>Refresh\<close>

lemma fetchListings_failure:
  "fetchListings_try P clock r = Inl m \<Longrightarrow>
     fetchListings P clock r s = s\<lparr>isLoading := False, error := Some m\<rparr>"
  by (simp add: fetchListings_def Let_def)

lemma fetchListings_isLoading: "isLoading (fetchListings P clock r s) = False"
  by (simp add: fetchListings_def Let_def split: sum.splits)

lemma fetchListings_try_failed:
  "list_failed r \<Longrightarrow> \<exists>m. fetchListings_try P clock r = Inl m"
  by (auto simp: list_failed_def fetchListings_try_def split: fetch_outcome.splits body.splits option.splits)

text \<open>
  Claim C3. Whatever the state before, \<open>fetchListings\<close> ends with the loading flag
  false. When the list operation fails, the listings held before are unchanged and the
  error slot holds a message: \<^verbatim>\<open>Error <status>: Failed to fetch listings\<close> for a non-2xx
  status, \<^verbatim>\<open>Invalid response format\<close> for a false success flag or a payload that is not
  a sequence. The collection changes only on full success, and then all of it is replaced
  by the decoded records.
\<close>

theorem fetchListings_all_or_nothing:
  "isLoading (fetchListings P clock r s) = False \<and>
   (list_failed r \<longrightarrow>
      listings (fetchListings P clock r s) = listings s \<and>
      (\<exists>m. error (fetchListings P clock r s) = Some m)) \<and>
   (\<forall>st b. r = Response st b \<and> \<not> ok st \<longrightarrow>
      error (fetchListings P clock r s) =
        Some (str ''Error '' @ string_of_nat st @ str '': Failed to fetch listings'')) \<and>
   (\<forall>st env. r = Response st (JSON env) \<and> ok st \<and> (\<not> success env \<or> data env = None) \<longrightarrow>
      error (fetchListings P clock r s) = Some (str ''Invalid response format'')) \<and>
   (listings (fetchListings P clock r s) \<noteq> listings s \<longrightarrow> \<not> list_failed r) \<and>
   (\<forall>st env recs. r = Response st (JSON env) \<and> ok st \<and> success env \<and> data env = Some recs \<longrightarrow>
      listings (fetchListings P clock r s) = formattedListings P clock 0 recs \<and>
      error (fetchListings P clock r s) = None)"
proof -
  have fail: "list_failed r \<Longrightarrow>
      listings (fetchListings P clock r s) = listings s \<and>
      (\<exists>m. error (fetchListings P clock r s) = Some m)"
  proof -
    assume "list_failed r"
    then obtain m where "fetchListings_try P clock r = Inl m"
      using fetchListings_try_failed by blast
    then show ?thesis by (simp add: fetchListings_failure)
  qed
  have http: "\<And>st b. r = Response st b \<and> \<not> ok st \<Longrightarrow>
      error (fetchListings P clock r s) =
        Some (str ''Error '' @ string_of_nat st @ str '': Failed to fetch listings'')"
    by (simp add: fetchListings_def fetchListings_try_def Let_def)
  have proto: "\<And>st env. r = Response st (JSON env) \<and> ok st \<and> (\<not> success env \<or> data env = None) \<Longrightarrow>
      error (fetchListings P clock r s) = Some (str ''Invalid response format'')"
    by (auto simp: fetchListings_def fetchListings_try_def Let_def split: option.splits)
  have succ: "\<And>st env recs. r = Response st (JSON env) \<and> ok st \<and> success env \<and> data env = Some recs \<Longrightarrow>
      listings (fetchListings P clock r s) = formattedListings P clock 0 recs \<and>
      error (fetchListings P clock r s) = None"
    by (simp add: fetchListings_success)
  show ?thesis
    using fetchListings_isLoading [of P clock r s] fail http proto succ by blast
qed

lemma list_failed_404: "list_failed (Response 404 (JSON refused))"
  by (simp add: list_failed_def not_ok_404)

lemma string_of_nat_404: "string_of_nat 404 = (str ''404'')"
  by (simp add: string_of_nat.simps lit)

theorem fetchListings_all_or_nothing_witness:
  "list_failed (Response 404 (JSON refused)) \<and>
   isLoading (fetchListings sample_Date sample_clock (Response 404 (JSON refused)) sample_state) = False \<and>
   listings (fetchListings sample_Date sample_clock (Response 404 (JSON refused)) sample_state)
     = listings sample_state \<and>
   error (fetchListings sample_Date sample_clock (Response 404 (JSON refused)) sample_state)
     = Some (str ''Error 404: Failed to fetch listings'') \<and>
   ok 200 \<and> success two_listings \<and>
   listings (fetchListings sample_Date sample_clock (Response 200 (JSON two_listings)) sample_state)
     = formattedListings sample_Date sample_clock 0 [vegan_listing, vegan_listing]"
proof -
  note f = fetchListings_all_or_nothing
      [of sample_Date sample_clock "Response 404 (JSON refused)" sample_state]
  note g = fetchListings_all_or_nothing
      [of sample_Date sample_clock "Response 200 (JSON two_listings)" sample_state]
  from f have a: "isLoading (fetchListings sample_Date sample_clock (Response 404 (JSON refused))
      sample_state) = False" by blast
  from f list_failed_404
  have b: "listings (fetchListings sample_Date sample_clock (Response 404 (JSON refused))
      sample_state) = listings sample_state" by blast
  from f not_ok_404
  have "error (fetchListings sample_Date sample_clock (Response 404 (JSON refused)) sample_state)
     = Some (str ''Error '' @ string_of_nat 404 @ str '': Failed to fetch listings'')" by blast
  then have c: "error (fetchListings sample_Date sample_clock (Response 404 (JSON refused))
      sample_state) = Some (str ''Error 404: Failed to fetch listings'')"
    by (simp add: string_of_nat_404 str_append [symmetric])
  from g ok_200 two_listings_fields
  have d: "listings (fetchListings sample_Date sample_clock (Response 200 (JSON two_listings))
      sample_state) = formattedListings sample_Date sample_clock 0 [vegan_listing, vegan_listing]"
    by blast
  show ?thesis using list_failed_404 a b c ok_200 two_listings_fields(1) d by blast
qed

section \<open>Delete\<close>

lemma handleDelete_try_failed: "delete_failed r \<Longrightarrow> \<exists>m. handleDelete_try r = Inl m"
  by (auto simp: delete_failed_def handleDelete_try_def split: fetch_outcome.splits body.splits)

lemma handleDelete_try_succeeded: "\<not> delete_failed r \<Longrightarrow> handleDelete_try r = Inr ()"
  by (auto simp: delete_failed_def handleDelete_try_def split: fetch_outcome.splits body.splits)

lemma effects_unconfirmed: "handleDelete_effects False r ident = [Confirm]"
  by (simp add: handleDelete_effects_def)

lemma effects_failed:
  "handleDelete_try r = Inl m \<Longrightarrow>
   handleDelete_effects True r ident =
     [Confirm, Request ident, Received r, SetError (str ''Failed to delete listing: '' @ m)]"
  by (simp add: handleDelete_effects_def)

lemma effects_succeeded:
  "\<not> delete_failed r \<Longrightarrow>
   handleDelete_effects True r ident = [Confirm, Request ident, Received r, SetListings ident]"
  by (simp add: handleDelete_effects_def handleDelete_try_succeeded)

lemma handleDelete_eq:
  "handleDelete confirmed r ident s =
     (if \<not> confirmed then s
      else (case handleDelete_try r of
              Inr _ \<Rightarrow> s\<lparr>listings := filter (\<lambda>listing. listing_id listing \<noteq> ident) (listings s)\<rparr>
            | Inl m \<Rightarrow> s\<lparr>error := Some (str ''Failed to delete listing: '' @ m)\<rparr>))"
  by (simp add: handleDelete_def run_effects_def handleDelete_effects_def split: sum.splits)

text \<open>The prefixes of a trace of four effects.\<close>

lemma prefix_of_four:
  "[a, b, c, d] = pre @ post \<Longrightarrow>
   pre = [] \<or> pre = [a] \<or> pre = [a, b] \<or> pre = [a, b, c] \<or> pre = [a, b, c, d]"
  by (auto simp: Cons_eq_append_conv)

lemma split_at_last_of_four:
  "[a, b, c, d] = pre @ x # post \<Longrightarrow>
   (pre = [] \<and> x = a) \<or> (pre = [a] \<and> x = b) \<or> (pre = [a, b] \<and> x = c) \<or>
   (pre = [a, b, c] \<and> x = d \<and> post = [])"
  by (auto simp: Cons_eq_append_conv)

text \<open>
  Claim C4. After the user's confirmation, a delete request that fails (no 2xx response, or
  a 2xx response whose success flag is false) leaves the listings exactly as they were and
  sets a non-empty error message; a request that succeeds removes the listings of that
  identifier. The trace of the call shows the order: it asks, sends the request, receives
  the outcome and only then writes, \<^verbatim>\<open>setError\<close> after a failure and \<^verbatim>\<open>setListings\<close> after a
  success. A removal stands nowhere else in a trace, and in every state before the outcome
  has arrived the listings are those of the start.
\<close>

theorem handleDelete_commits_after_success:
  "(confirmed \<and> delete_failed r \<longrightarrow>
      listings (handleDelete confirmed r ident s) = listings s \<and>
      (\<exists>m. error (handleDelete confirmed r ident s) = Some m \<and> m \<noteq> [] \<and>
           handleDelete_effects confirmed r ident =
             [Confirm, Request ident, Received r, SetError m])) \<and>
   (confirmed \<and> \<not> delete_failed r \<longrightarrow>
      listings (handleDelete confirmed r ident s) =
        filter (\<lambda>l. listing_id l \<noteq> ident) (listings s) \<and>
      handleDelete_effects confirmed r ident =
        [Confirm, Request ident, Received r, SetListings ident]) \<and>
   (listings (handleDelete confirmed r ident s) \<noteq> listings s \<longrightarrow>
      confirmed \<and> \<not> delete_failed r) \<and>
   (\<forall>pre post j. handleDelete_effects confirmed r ident = pre @ SetListings j # post \<longrightarrow>
      confirmed \<and> \<not> delete_failed r \<and> j = ident \<and>
      pre = [Confirm, Request ident, Received r] \<and> post = []) \<and>
   (\<forall>pre post. handleDelete_effects confirmed r ident = pre @ post \<and> Received r \<notin> set pre \<longrightarrow>
      listings (run_effects pre s) = listings s)"
proof -
  have fail: "confirmed \<and> delete_failed r \<Longrightarrow>
      listings (handleDelete confirmed r ident s) = listings s \<and>
      (\<exists>m. error (handleDelete confirmed r ident s) = Some m \<and> m \<noteq> [] \<and>
           handleDelete_effects confirmed r ident =
             [Confirm, Request ident, Received r, SetError m])"
  proof -
    assume a: "confirmed \<and> delete_failed r"
    then obtain m where m: "handleDelete_try r = Inl m"
      using handleDelete_try_failed by blast
    let ?msg = "str ''Failed to delete listing: '' @ m"
    have "?msg \<noteq> []" by (simp add: str_def)
    moreover have "handleDelete_effects confirmed r ident =
        [Confirm, Request ident, Received r, SetError ?msg]"
      using a m by (simp add: effects_failed)
    moreover have "error (handleDelete confirmed r ident s) = Some ?msg"
      using a m by (simp add: handleDelete_eq)
    moreover have "listings (handleDelete confirmed r ident s) = listings s"
      using a m by (simp add: handleDelete_eq)
    ultimately show ?thesis by blast
  qed
  have succ: "confirmed \<and> \<not> delete_failed r \<Longrightarrow>
      listings (handleDelete confirmed r ident s) =
        filter (\<lambda>l. listing_id l \<noteq> ident) (listings s) \<and>
      handleDelete_effects confirmed r ident =
        [Confirm, Request ident, Received r, SetListings ident]"
    by (simp add: handleDelete_eq handleDelete_try_succeeded effects_succeeded)
  have unconf: "\<not> confirmed \<Longrightarrow> listings (handleDelete confirmed r ident s) = listings s"
    by (simp add: handleDelete_eq)
  have changed: "listings (handleDelete confirmed r ident s) \<noteq> listings s \<longrightarrow>
      confirmed \<and> \<not> delete_failed r"
    using fail unconf by blast
  have removal: "\<And>pre post j.
      handleDelete_effects confirmed r ident = pre @ SetListings j # post \<Longrightarrow>
      confirmed \<and> \<not> delete_failed r \<and> j = ident \<and>
      pre = [Confirm, Request ident, Received r] \<and> post = []"
  proof -
    fix pre post j
    assume e: "handleDelete_effects confirmed r ident = pre @ SetListings j # post"
    show "confirmed \<and> \<not> delete_failed r \<and> j = ident \<and>
      pre = [Confirm, Request ident, Received r] \<and> post = []"
    proof (cases confirmed)
      case False
      with e have "[Confirm] = pre @ SetListings j # post"
        by (simp add: effects_unconfirmed)
      then show ?thesis by (auto simp: Cons_eq_append_conv)
    next
      case True
      show ?thesis
      proof (cases "delete_failed r")
        case failed: True
        with True fail obtain m where
          "handleDelete_effects confirmed r ident = [Confirm, Request ident, Received r, SetError m]"
          by blast
        with e have "[Confirm, Request ident, Received r, SetError m] = pre @ SetListings j # post"
          by simp
        from split_at_last_of_four [OF this] show ?thesis by auto
      next
        case False
        with True succ e
        have "[Confirm, Request ident, Received r, SetListings ident] = pre @ SetListings j # post"
          by simp
        from split_at_last_of_four [OF this] True False show ?thesis by auto
      qed
    qed
  qed
  have before: "\<And>pre post.
      handleDelete_effects confirmed r ident = pre @ post \<and> Received r \<notin> set pre \<Longrightarrow>
      listings (run_effects pre s) = listings s"
  proof -
    fix pre post
    assume e: "handleDelete_effects confirmed r ident = pre @ post \<and> Received r \<notin> set pre"
    have "pre = [] \<or> pre = [Confirm] \<or> pre = [Confirm, Request ident]"
    proof (cases confirmed)
      case False
      with e have "[Confirm] = pre @ post" by (simp add: effects_unconfirmed)
      then show ?thesis by (auto simp: Cons_eq_append_conv)
    next
      case True
      obtain w where "handleDelete_effects confirmed r ident =
          [Confirm, Request ident, Received r, w]"
        using True fail succ by (cases "delete_failed r") blast+
      with e have "[Confirm, Request ident, Received r, w] = pre @ post" by simp
      from prefix_of_four [OF this] e show ?thesis by auto
    qed
    then show "listings (run_effects pre s) = listings s"
      by (auto simp: run_effects_def)
  qed
  show ?thesis using fail succ changed removal before by blast
qed

lemma delete_failed_404: "delete_failed (Response 404 (JSON refused))"
  by (simp add: delete_failed_def not_ok_404)

lemma delete_failed_200_refused: "delete_failed (Response 200 (JSON refused))"
  by (simp add: delete_failed_def refused_def)

lemma not_delete_failed_200: "\<not> delete_failed (Response 200 (JSON accepted))"
  by (simp add: delete_failed_def ok_200 accepted_def)

lemma sample_state_without_1:
  "filter (\<lambda>l. listing_id l \<noteq> 1) (listings sample_state) = []"
  by (simp add: sample_state_def formatListing_def vegan_listing_def sample_listing_def)

lemma sample_error_404:
  "error (handleDelete True (Response 404 (JSON refused)) 1 sample_state)
     = Some (str ''Failed to delete listing: Food post not found'')"
  by (simp add: handleDelete_eq handleDelete_try_def not_ok_404 refused_def js_or_def truthy_def
      str_append [symmetric])

theorem handleDelete_commits_after_success_witness:
  "delete_failed (Response 404 (JSON refused)) \<and>
   listings (handleDelete True (Response 404 (JSON refused)) 1 sample_state)
     = listings sample_state \<and>
   error (handleDelete True (Response 404 (JSON refused)) 1 sample_state)
     = Some (str ''Failed to delete listing: Food post not found'') \<and>
   handleDelete_effects True (Response 404 (JSON refused)) 1 =
     [Confirm, Request 1, Received (Response 404 (JSON refused)),
      SetError (str ''Failed to delete listing: Food post not found'')] \<and>
   delete_failed (Response 200 (JSON refused)) \<and>
   listings (handleDelete True (Response 200 (JSON refused)) 1 sample_state)
     = listings sample_state \<and>
   listings (handleDelete True (Response 200 (JSON accepted)) 1 sample_state) = [] \<and>
   handleDelete_effects True (Response 200 (JSON accepted)) 1 =
     [Confirm, Request 1, Received (Response 200 (JSON accepted)), SetListings 1] \<and>
   listings (run_effects [Confirm, Request 1] sample_state) = listings sample_state"
proof -
  note t404 = handleDelete_commits_after_success
      [of True "Response 404 (JSON refused)" 1 sample_state]
  note t200r = handleDelete_commits_after_success
      [of True "Response 200 (JSON refused)" 1 sample_state]
  note t200 = handleDelete_commits_after_success
      [of True "Response 200 (JSON accepted)" 1 sample_state]
  from t404 delete_failed_404
  have a: "listings (handleDelete True (Response 404 (JSON refused)) 1 sample_state)
     = listings sample_state" by blast
  from t404 delete_failed_404 obtain m where
    m: "error (handleDelete True (Response 404 (JSON refused)) 1 sample_state) = Some m"
    and tr: "handleDelete_effects True (Response 404 (JSON refused)) 1 =
      [Confirm, Request 1, Received (Response 404 (JSON refused)), SetError m]"
    by blast
  from m have "m = str ''Failed to delete listing: Food post not found''"
    by (simp add: sample_error_404)
  with tr have e: "handleDelete_effects True (Response 404 (JSON refused)) 1 =
     [Confirm, Request 1, Received (Response 404 (JSON refused)),
      SetError (str ''Failed to delete listing: Food post not found'')]" by simp
  from t200r delete_failed_200_refused
  have b: "listings (handleDelete True (Response 200 (JSON refused)) 1 sample_state)
     = listings sample_state" by blast
  from t200 not_delete_failed_200
  have f: "listings (handleDelete True (Response 200 (JSON accepted)) 1 sample_state)
     = filter (\<lambda>l. listing_id l \<noteq> 1) (listings sample_state)"
    and g: "handleDelete_effects True (Response 200 (JSON accepted)) 1 =
     [Confirm, Request 1, Received (Response 200 (JSON accepted)), SetListings 1]"
    by blast+
  from f have c: "listings (handleDelete True (Response 200 (JSON accepted)) 1 sample_state) = []"
    by (simp only: sample_state_without_1)
  have "handleDelete_effects True (Response 200 (JSON accepted)) 1 =
      [Confirm, Request 1] @ [Received (Response 200 (JSON accepted)), SetListings 1] \<and>
      Received (Response 200 (JSON accepted)) \<notin> set [Confirm, Request 1]"
    using g by simp
  with t200 have h: "listings (run_effects [Confirm, Request 1] sample_state)
      = listings sample_state" by blast
  show ?thesis
    using delete_failed_404 delete_failed_200_refused a b c e g h sample_error_404 by blast
qed

section \<open>Submitting a draft\<close>

text \<open>
  Claim C5. For a draft with no image attached, \<open>handleSubmit\<close> sets the inline error
  message, dispatches no request and does not navigate; the draft's fields are unchanged
  and the submitting flag is false afterwards.
\<close>

theorem handleSubmit_without_image:
  assumes "draft_image (listing s) = None"
  shows "handleSubmit P toISO server s =
           (s\<lparr>form_error := str ''Please upload an image for your listing'', isSubmitting := False\<rparr>,
            [], False) \<and>
         fst (snd (handleSubmit P toISO server s)) = [] \<and>
         listing (fst (handleSubmit P toISO server s)) = listing s \<and>
         isSubmitting (fst (handleSubmit P toISO server s)) = False \<and>
         form_error (fst (handleSubmit P toISO server s)) \<noteq> []"
  using assms by (simp add: handleSubmit_def Let_def)

lemma sample_draft_no_image: "draft_image (listing sample_draft) = None"
  by (simp add: sample_draft_def)

theorem handleSubmit_without_image_witness:
  "draft_image (listing sample_draft) = None \<and>
   handleSubmit sample_Date sample_toISOString offline sample_draft =
     (sample_draft\<lparr>form_error := str ''Please upload an image for your listing'',
                   isSubmitting := False\<rparr>, [], False)"
  using sample_draft_no_image
    handleSubmit_without_image [OF sample_draft_no_image, of sample_Date sample_toISOString offline]
  by blast

section \<open>Search\<close>

subsection \<open>Substrings\<close>

lemma startsWith_iff: "startsWith s q \<longleftrightarrow> (\<exists>post. s = q @ post)"
  by (induction s q rule: startsWith.induct) auto

lemma includes_str_iff: "includes_str s q \<longleftrightarrow> is_substring q s"
proof (induction s)
  case Nil
  then show ?case by (simp add: startsWith_iff is_substring_def)
next
  case (Cons c cs)
  have "is_substring q (c # cs) \<longleftrightarrow> (\<exists>post. c # cs = q @ post) \<or> is_substring q cs"
  proof
    assume "is_substring q (c # cs)"
    then obtain pre post where e: "c # cs = pre @ q @ post" by (auto simp: is_substring_def)
    show "(\<exists>post. c # cs = q @ post) \<or> is_substring q cs"
    proof (cases pre)
      case Nil
      with e show ?thesis by auto
    next
      case (Cons p ps)
      with e have "cs = ps @ q @ post" by simp
      then show ?thesis by (auto simp: is_substring_def)
    qed
  next
    assume "(\<exists>post. c # cs = q @ post) \<or> is_substring q cs"
    then show "is_substring q (c # cs)"
    proof
      assume "\<exists>post. c # cs = q @ post"
      then obtain post where "c # cs = [] @ q @ post" by auto
      then show ?thesis unfolding is_substring_def by blast
    next
      assume "is_substring q cs"
      then obtain pre post where "cs = pre @ q @ post" by (auto simp: is_substring_def)
      then have "c # cs = (c # pre) @ q @ post" by simp
      then show ?thesis unfolding is_substring_def by blast
    qed
  qed
  then show ?case using Cons by (simp add: startsWith_iff)
qed

subsection \<open>Lower case, character by character\<close>












subsection \<open>The filter\<close>





















section \<open>Adding a tag\<close>

lemma includes_str_self_suffix: "includes_str (pre @ t) t"
  by (simp add: includes_str_iff is_substring_def) (metis append_Nil2)

lemma addTag_noop:
  "\<not> truthy (trim (tagInput s)) \<or>
     includes_str (draft_dietaryRestrictions (listing s)) (trim (tagInput s)) \<Longrightarrow>
   addTag s = s"
  by (auto simp: addTag_def Let_def)

lemma addTag_appends:
  "truthy (trim (tagInput s)) \<Longrightarrow>
   \<not> includes_str (draft_dietaryRestrictions (listing s)) (trim (tagInput s)) \<Longrightarrow>
   addTag s =
     s\<lparr>listing := (listing s)\<lparr>draft_dietaryRestrictions :=
           (if draft_dietaryRestrictions (listing s) = [] then trim (tagInput s)
            else draft_dietaryRestrictions (listing s) @ str '', '' @ trim (tagInput s))\<rparr>,
       tagInput := []\<rparr>"
  by (simp add: addTag_def Let_def truthy_def)

lemma addTag_present_after:
  "truthy (trim (tagInput s)) \<Longrightarrow>
   includes_str (draft_dietaryRestrictions (listing (addTag s))) (trim (tagInput s))"
proof (cases "includes_str (draft_dietaryRestrictions (listing s)) (trim (tagInput s))")
  case True
  then show ?thesis by (simp add: addTag_noop)
next
  case False
  assume t: "truthy (trim (tagInput s))"
  have "includes_str ([] @ trim (tagInput s)) (trim (tagInput s))"
    by (rule includes_str_self_suffix)
  moreover have "includes_str ((draft_dietaryRestrictions (listing s) @ str '', '') @ trim (tagInput s))
      (trim (tagInput s))"
    by (rule includes_str_self_suffix)
  ultimately show ?thesis using t False by (simp add: addTag_appends)
qed

lemma addTag_twice:
  "addTag ((addTag s)\<lparr>tagInput := tagInput s\<rparr>) = (addTag s)\<lparr>tagInput := tagInput s\<rparr>"
proof (cases "truthy (trim (tagInput s))")
  case True
  let ?s1 = "(addTag s)\<lparr>tagInput := tagInput s\<rparr>"
  have "includes_str (draft_dietaryRestrictions (listing ?s1)) (trim (tagInput ?s1))"
    using addTag_present_after [OF True] by simp
  then show ?thesis by (rule addTag_noop [OF disjI2])
next
  case False
  then show ?thesis by (intro addTag_noop disjI1) simp
qed

text \<open>
  Claim C9. \<open>addTag\<close> returns the state unchanged when the trimmed input is empty or
  already occurs in the dietary-restriction string; otherwise it appends the trimmed input
  after a comma and a space, or makes it the whole string when the string was empty.
  Adding the same input a second time changes neither the string nor the tags derived from
  it.
\<close>

theorem addTag_spec:
  "(trim (tagInput s) = [] \<or> is_substring (trim (tagInput s)) (draft_dietaryRestrictions (listing s))
      \<longrightarrow> addTag s = s) \<and>
   (trim (tagInput s) \<noteq> [] \<and>
    \<not> is_substring (trim (tagInput s)) (draft_dietaryRestrictions (listing s)) \<longrightarrow>
      draft_dietaryRestrictions (listing (addTag s)) =
        (if draft_dietaryRestrictions (listing s) = [] then trim (tagInput s)
         else draft_dietaryRestrictions (listing s) @ str '', '' @ trim (tagInput s))) \<and>
   draft_dietaryRestrictions (listing (addTag ((addTag s)\<lparr>tagInput := tagInput s\<rparr>))) =
     draft_dietaryRestrictions (listing (addTag s)) \<and>
   dietaryTags (draft_dietaryRestrictions (listing (addTag ((addTag s)\<lparr>tagInput := tagInput s\<rparr>)))) =
     dietaryTags (draft_dietaryRestrictions (listing (addTag s)))"
proof (intro conjI impI)
  assume "trim (tagInput s) = [] \<or>
          is_substring (trim (tagInput s)) (draft_dietaryRestrictions (listing s))"
  then show "addTag s = s"
    by (intro addTag_noop) (auto simp: truthy_def includes_str_iff)
next
  assume "trim (tagInput s) \<noteq> [] \<and>
          \<not> is_substring (trim (tagInput s)) (draft_dietaryRestrictions (listing s))"
  then show "draft_dietaryRestrictions (listing (addTag s)) =
        (if draft_dietaryRestrictions (listing s) = [] then trim (tagInput s)
         else draft_dietaryRestrictions (listing s) @ str '', '' @ trim (tagInput s))"
    by (simp add: addTag_appends truthy_def includes_str_iff)
next
  show "draft_dietaryRestrictions (listing (addTag ((addTag s)\<lparr>tagInput := tagInput s\<rparr>))) =
     draft_dietaryRestrictions (listing (addTag s))"
    by (simp add: addTag_twice)
  then show "dietaryTags (draft_dietaryRestrictions
        (listing (addTag ((addTag s)\<lparr>tagInput := tagInput s\<rparr>)))) =
     dietaryTags (draft_dietaryRestrictions (listing (addTag s)))"
    by simp
qed

lemma trim_Halal: "trim (str '' Halal '') = str ''Halal''"
  by (simp add: trim_def isWhiteSpace_def lit)

lemma dietaryTags_sample: "dietaryTags (str ''Vegan, Halal'') = [str ''Vegan'', str ''Halal'']"
  by (simp add: dietaryTags_def truthy_def trim_def isWhiteSpace_def Let_def lit)

lemma not_substring_Halal: "\<not> is_substring (str ''Halal'') (str ''Vegan'')"
  by (simp add: includes_str_iff [symmetric] lit)

lemma sample_draft_fields:
  "tagInput sample_draft = str '' Halal ''"
  "draft_dietaryRestrictions (listing sample_draft) = str ''Vegan''"
  by (simp_all add: sample_draft_def)

lemma trim_blank: "trim (str ''  '') = []"
  by (simp add: trim_def isWhiteSpace_def lit)

theorem addTag_spec_witness:
  "trim (tagInput sample_draft) = str ''Halal'' \<and>
   \<not> is_substring (str ''Halal'') (draft_dietaryRestrictions (listing sample_draft)) \<and>
   draft_dietaryRestrictions (listing (addTag sample_draft)) = str ''Vegan, Halal'' \<and>
   dietaryTags (draft_dietaryRestrictions
      (listing (addTag ((addTag sample_draft)\<lparr>tagInput := tagInput sample_draft\<rparr>))))
     = [str ''Vegan'', str ''Halal''] \<and>
   trim (tagInput (sample_draft\<lparr>tagInput := str ''  ''\<rparr>)) = [] \<and>
   addTag (sample_draft\<lparr>tagInput := str ''  ''\<rparr>) = sample_draft\<lparr>tagInput := str ''  ''\<rparr>"
proof -
  have t: "trim (tagInput sample_draft) = str ''Halal''"
    by (simp add: sample_draft_fields trim_Halal)
  have n: "\<not> is_substring (str ''Halal'') (draft_dietaryRestrictions (listing sample_draft))"
    by (simp add: sample_draft_fields not_substring_Halal)
  note spec = addTag_spec [of sample_draft]
  from spec t n
  have "draft_dietaryRestrictions (listing (addTag sample_draft)) =
        (if draft_dietaryRestrictions (listing sample_draft) = [] then trim (tagInput sample_draft)
         else draft_dietaryRestrictions (listing sample_draft) @ str '', '' @ trim (tagInput sample_draft))"
    by simp
  then have a: "draft_dietaryRestrictions (listing (addTag sample_draft)) = str ''Vegan, Halal''"
    by (simp add: sample_draft_fields trim_Halal str_append [symmetric])
  from spec have "dietaryTags (draft_dietaryRestrictions
      (listing (addTag ((addTag sample_draft)\<lparr>tagInput := tagInput sample_draft\<rparr>))))
     = dietaryTags (draft_dietaryRestrictions (listing (addTag sample_draft)))" by blast
  then have b: "dietaryTags (draft_dietaryRestrictions
      (listing (addTag ((addTag sample_draft)\<lparr>tagInput := tagInput sample_draft\<rparr>))))
     = [str ''Vegan'', str ''Halal'']"
    by (simp only: a dietaryTags_sample)
  let ?blank = "sample_draft\<lparr>tagInput := str ''  ''\<rparr>"
  have e: "trim (tagInput ?blank) = []" by (simp add: trim_blank)
  from addTag_spec [of ?blank] e have c: "addTag ?blank = ?blank" by blast
  show ?thesis using t n a b e c by blast
qed

end
